theory Spec2Isabelle
  imports Main "HOL-Library.Word" "HOL-Library.Sublist"
begin

section \<open>JavaScript values used by the handlers\<close>

text \<open>
  A JavaScript string is a sequence of UTF-16 code units; \<open>length\<close>, \<open>substring\<close>,
  \<open>includes\<close> and a regular expression without the \<open>u\<close> flag all work on code units.
  \<open>js\<close> writes an ASCII literal of the source as such a sequence.
\<close>

type_synonym code_unit = "16 word"
type_synonym jsstring = "code_unit list"

definition js :: "string \<Rightarrow> jsstring" where
  "js s = map (\<lambda>c. of_nat (of_char c)) s"

text \<open>
  \<open>s.includes(searchString)\<close>: some position of \<open>s\<close> starts a copy of
  \<open>searchString\<close>.
\<close>

fun str_includes :: "jsstring \<Rightarrow> jsstring \<Rightarrow> bool" where
  "str_includes [] searchString = (searchString = [])"
| "str_includes (c # cs) searchString =
     (prefix searchString (c # cs) \<or> str_includes cs searchString)"

text \<open>
  Truthiness of a value of type \<open>string | null | undefined\<close>: \<open>null\<close>,
  \<open>undefined\<close> and the empty string are falsy. \<open>or_else a b\<close> is \<open>a || b\<close>
  for such an \<open>a\<close> and a string \<open>b\<close>.
\<close>

definition truthy :: "jsstring option \<Rightarrow> bool" where
  "truthy v = (case v of None \<Rightarrow> False | Some s \<Rightarrow> s \<noteq> [])"

definition or_else :: "jsstring option \<Rightarrow> jsstring \<Rightarrow> jsstring" where
  "or_else a b = (case a of None \<Rightarrow> b | Some s \<Rightarrow> if s = [] then b else s)"

text \<open>
  The character classes of the two regular expressions of the download handler, as
  ECMAScript defines them for a pattern without flags \<open>u\<close> and \<open>i\<close>:
  \<open>\w\<close> is \<open>[A-Za-z0-9_]\<close>; \<open>\s\<close> is the white space and line terminator code
  points.
\<close>

definition is_word :: "code_unit \<Rightarrow> bool" where
  "is_word c =
     ((0x41 \<le> c \<and> c \<le> 0x5A) \<or> (0x61 \<le> c \<and> c \<le> 0x7A) \<or>
      (0x30 \<le> c \<and> c \<le> 0x39) \<or> c = 0x5F)"

definition is_space :: "code_unit \<Rightarrow> bool" where
  "is_space c =
     ((0x09 \<le> c \<and> c \<le> 0x0D) \<or> c = 0x20 \<or> c = 0xA0 \<or> c = 0x1680 \<or>
      (0x2000 \<le> c \<and> c \<le> 0x200A) \<or> c = 0x2028 \<or> c = 0x2029 \<or>
      c = 0x202F \<or> c = 0x205F \<or> c = 0x3000 \<or> c = 0xFEFF)"

definition underscore :: code_unit where
  "underscore = 0x5F"

definition hyphen :: code_unit where
  "hyphen = 0x2D"

definition dot :: code_unit where
  "dot = 0x2E"

definition dquote :: code_unit where
  "dquote = 0x22"

text \<open>\<open>.replace(/[^\w\s\-\.]/g, '_')\<close>: every code unit outside the class becomes \<open>_\<close>.\<close>

definition replace_unsafe :: "jsstring \<Rightarrow> jsstring" where
  "replace_unsafe s =
     map (\<lambda>c. if is_word c \<or> is_space c \<or> c = hyphen \<or> c = dot then c else underscore) s"

text \<open>\<open>.replace(/\s+/g, '_')\<close>: every maximal run of white space becomes one \<open>_\<close>.\<close>

function replace_spaces :: "jsstring \<Rightarrow> jsstring" where
  "replace_spaces [] = []"
| "replace_spaces (c # cs) =
     (if is_space c then underscore # replace_spaces (dropWhile is_space cs)
      else c # replace_spaces cs)"
  by pat_completeness auto
termination
  by (relation "measure length") (auto simp: length_dropWhile_le less_Suc_eq_le)

text \<open>
  \<open>s.substring(start, end)\<close> for non-negative integer arguments: the arguments are
  swapped when \<open>start > end\<close>, and both are clamped to the length.
\<close>

definition substring :: "jsstring \<Rightarrow> nat \<Rightarrow> nat \<Rightarrow> jsstring" where
  "substring s start end' =
     (let from = min start end'; to = max start end' in take (to - from) (drop from s))"

section \<open>The download handler: \<open>src/app/api/download-video/route.ts\<close>\<close>

subsection \<open>What the handler reads from outside\<close>

text \<open>
  What the \<open>catch\<close> block can see of a thrown value \<open>error\<close>:
  \<^item> \<open>StringMessage m\<close>: \<open>error\<close> is truthy and \<open>typeof error.message === 'string'\<close>,
    the message being \<open>m\<close> (possibly empty);
  \<^item> \<open>OtherMessage j\<close>: \<open>error\<close> is truthy and \<open>error.message\<close> is truthy but not a
    string, \<open>j\<close> being what \<open>JSON.stringify(error.message)\<close> prints in the template;
  \<^item> \<open>NoMessage\<close>: anything else.
\<close>

datatype thrown = StringMessage jsstring | OtherMessage jsstring | NoMessage

record videoDetails =
  title :: "jsstring option"

record videoInfo =
  videoDetails :: videoDetails

text \<open>
  The functions of the runtime and of the \<open>ytdl-core\<close> library that decide the
  handler's control flow. They are not code of this repository and stay parameters:
  \<open>toLowerCase\<close> is \<open>String.prototype.toLowerCase\<close>, \<open>validateID\<close> is
  \<open>ytdl.validateID\<close>, and \<open>getInfo url\<close> is the outcome of awaiting
  \<open>ytdl.getInfo(url)\<close>: \<open>Inl\<close> the value it rejects with, \<open>Inr\<close> the info.
\<close>

record externals =
  toLowerCase :: "jsstring \<Rightarrow> jsstring"
  validateID :: "jsstring \<Rightarrow> bool"
  getInfo :: "jsstring \<Rightarrow> thrown + videoInfo"

subsection \<open>The objects the handler wires together\<close>

text \<open>
  The three resources a streaming response holds, as far as teardown goes: whether the
  source stream and the pass-through stream have been destroyed, and the signals
  \<open>kill\<close> has sent to the transcoding command.
\<close>

datatype signal = SIGKILL | SIGTERM

record resources =
  videoStreamNode_destroyed :: bool
  ffmpegOutputPassThrough_destroyed :: bool
  ffmpegCommand_signals :: "signal list"

text \<open>
  A JavaScript object carries its methods; \<open>typeof x.destroy === 'function'\<close> asks
  whether the member is there, so the member is an \<open>option\<close>.
\<close>

record format =
  container :: jsstring
  hasAudio :: bool
  hasVideo :: bool

record downloadOptions =
  quality :: jsstring
  filter :: "format \<Rightarrow> bool"

record source_stream =
  source_url :: jsstring
  source_options :: downloadOptions
  source_destroy :: "(resources \<Rightarrow> resources) option"

record pass_through =
  pass_destroy :: "(resources \<Rightarrow> resources) option"

record ffmpeg_command =
  input :: source_stream
  startTime :: "jsstring option"
  duration :: "nat option"
  outputFormat :: "jsstring option"
  outputOpts :: "jsstring list"
  kill :: "(signal \<Rightarrow> resources \<Rightarrow> resources) option"

text \<open>\<open>ytdl(url, options)\<close> returns a Node readable stream, which has \<open>destroy\<close>.\<close>

definition ytdl :: "jsstring \<Rightarrow> downloadOptions \<Rightarrow> source_stream" where
  "ytdl url options =
     \<lparr>source_url = url, source_options = options,
      source_destroy = Some (\<lambda>r. r\<lparr>videoStreamNode_destroyed := True\<rparr>)\<rparr>"

text \<open>\<open>new PassThrough()\<close>.\<close>

definition PassThrough :: pass_through where
  "PassThrough =
     \<lparr>pass_destroy = Some (\<lambda>r. r\<lparr>ffmpegOutputPassThrough_destroyed := True\<rparr>)\<rparr>"

text \<open>
  The \<open>fluent-ffmpeg\<close> builder: \<open>ffmpeg(input)\<close> makes a command, each setter returns
  the command with one more setting, and \<open>kill(signal)\<close> sends the signal.
\<close>

definition ffmpeg :: "source_stream \<Rightarrow> ffmpeg_command" where
  "ffmpeg src =
     \<lparr>input = src, startTime = None, duration = None, outputFormat = None, outputOpts = [],
      kill = Some (\<lambda>sig r. r\<lparr>ffmpegCommand_signals := ffmpegCommand_signals r @ [sig]\<rparr>)\<rparr>"

definition setStartTime :: "jsstring \<Rightarrow> ffmpeg_command \<Rightarrow> ffmpeg_command" where
  "setStartTime t cmd = cmd\<lparr>startTime := Some t\<rparr>"

definition setDuration :: "nat \<Rightarrow> ffmpeg_command \<Rightarrow> ffmpeg_command" where
  "setDuration d cmd = cmd\<lparr>duration := Some d\<rparr>"

definition toFormat :: "jsstring \<Rightarrow> ffmpeg_command \<Rightarrow> ffmpeg_command" where
  "toFormat f cmd = cmd\<lparr>outputFormat := Some f\<rparr>"

definition outputOptions :: "jsstring list \<Rightarrow> ffmpeg_command \<Rightarrow> ffmpeg_command" where
  "outputOptions opts cmd = cmd\<lparr>outputOpts := outputOpts cmd @ opts\<rparr>"

text \<open>
  The web stream handed to the response; \<open>cancel\<close> is its cancel callback, run by
  the runtime when the consumer of the response cancels the stream.
\<close>

record readable_stream =
  cancel :: "resources \<Rightarrow> resources"

text \<open>
  A response of the handler: \<open>NextResponse.json({error, videoId}, {status})\<close>, or
  \<open>new NextResponse(stream, {headers})\<close>.
\<close>

datatype download_response =
    ErrorJson (status: nat) (error: jsstring) (videoId: "jsstring option")
  | VideoStream (headers: "jsstring \<rightharpoonup> jsstring") (body: readable_stream)

text \<open>
  The work the handler starts outside its own process, in the order it starts it: the
  \<open>getInfo\<close> request, the download stream, and the transcoder the command is piped
  through.
\<close>

datatype external_call =
    GetInfoCall jsstring
  | YtdlCall jsstring
  | FfmpegPipe ffmpeg_command

subsection \<open>The handler\<close>

text \<open>
  The \<open>catch\<close> block of \<open>GET\<close> (lines 136 to 168): the status code and the
  message chosen from the thrown value. \<open>confirm_not_a_bot\<close> is the last search
  string of the fourth test, written as the source file has it: with the three code
  units U+00E2, U+20AC, U+2122 between \<open>you\<close> and \<open>re\<close>.
\<close>

definition confirm_not_a_bot :: jsstring where
  "confirm_not_a_bot = js ''confirm you'' @ [0xE2, 0x20AC, 0x2122] @ js ''re not a bot''"

definition catch_block :: "externals \<Rightarrow> jsstring \<Rightarrow> thrown \<Rightarrow> download_response" where
  "catch_block ext videoId_param thrown_error =
     (case thrown_error of
        StringMessage message \<Rightarrow>
          (let ytdlErrorMessage = toLowerCase ext message in
           if str_includes ytdlErrorMessage (js ''unavailable'') \<or>
              str_includes ytdlErrorMessage (js ''private'') \<or>
              str_includes ytdlErrorMessage (js ''video not found'')
           then ErrorJson 404 (js ''Video is unavailable, private, or not found.'')
                  (Some videoId_param)
           else if str_includes ytdlErrorMessage (js ''extract function'') \<or>
              str_includes ytdlErrorMessage (js ''cipher'') \<or>
              str_includes ytdlErrorMessage (js ''signature'')
           then ErrorJson 503
                  (js ''Error processing YouTube video: '' @ message @
                   js ''. This often indicates an issue with YouTube's current video delivery mechanism or that the 'ytdl-core' library needs an update to adapt to recent YouTube changes. Please check the ytdl-core GitHub repository for known issues.'')
                  (Some videoId_param)
           else if str_includes ytdlErrorMessage (js ''no formats found matching quality'') \<or>
              str_includes ytdlErrorMessage (js ''no such format found'')
           then ErrorJson 422
                  (js ''Could not find a suitable MP4 format with both video and audio for videoId '' @
                   videoId_param @
                   js ''. The video might only offer separate streams. Error: '' @ message)
                  (Some videoId_param)
           else if str_includes ytdlErrorMessage (js ''sign in to confirm'') \<or>
              str_includes ytdlErrorMessage confirm_not_a_bot
           then ErrorJson 403
                  (js ''YouTube requires verification to access this video. This may be due to bot detection. Please try again later or from a different network. Original error: '' @
                   message)
                  (Some videoId_param)
           else ErrorJson 500 message (Some videoId_param))
      | OtherMessage stringified \<Rightarrow>
          ErrorJson 500 (js ''An unexpected error occurred: '' @ stringified) (Some videoId_param)
      | NoMessage \<Rightarrow>
          ErrorJson 500 (js ''An unknown error occurred while trying to download the video.'')
            (Some videoId_param))"

text \<open>The file name of the download, from the title (lines 32 to 37).\<close>

definition sanitizedFilenameBase :: "jsstring option \<Rightarrow> jsstring" where
  "sanitizedFilenameBase info_title =
     (let videoTitle = or_else info_title (js ''youtube_video'')
      in substring (replace_spaces (replace_unsafe videoTitle)) 0 100)"

definition filename :: "jsstring option \<Rightarrow> jsstring" where
  "filename info_title = sanitizedFilenameBase info_title @ js ''_trimmed_30s.mp4''"

text \<open>The response headers (lines 39 to 41).\<close>

definition response_headers :: "jsstring option \<Rightarrow> (jsstring \<rightharpoonup> jsstring)" where
  "response_headers info_title =
     ((Map.empty(js ''Content-Type'' \<mapsto> js ''video/mp4''))
        (js ''Content-Disposition'' \<mapsto>
           js ''attachment; filename='' @ [dquote] @ filename info_title @ [dquote]))"

text \<open>The format filter handed to \<open>ytdl\<close> (line 45).\<close>

definition mp4_filter :: "format \<Rightarrow> bool" where
  "mp4_filter fmt = (container fmt = js ''mp4'' \<and> hasAudio fmt \<and> hasVideo fmt)"

text \<open>The transcoding command (lines 60 to 70); the event listeners only log.\<close>

definition ffmpegCommand :: "source_stream \<Rightarrow> ffmpeg_command" where
  "ffmpegCommand videoStreamNode =
     outputOptions
       [js ''-movflags frag_keyframe+empty_moov'', js ''-preset ultrafast'',
        js ''-tune zerolatency'']
       (toFormat (js ''mp4'')
          (setDuration 30
             (setStartTime (js ''00:00:00'') (ffmpeg videoStreamNode))))"

text \<open>The \<open>cancel\<close> callback of the web stream (lines 119 to 131).\<close>

definition cancel_callback ::
  "source_stream \<Rightarrow> pass_through \<Rightarrow> ffmpeg_command \<Rightarrow> resources \<Rightarrow> resources" where
  "cancel_callback videoStreamNode ffmpegOutputPassThrough cmd r =
     (let r1 = (case source_destroy videoStreamNode of
                  Some destroy \<Rightarrow> destroy r
                | None \<Rightarrow> r);
          r2 = (case pass_destroy ffmpegOutputPassThrough of
                  Some destroy \<Rightarrow> destroy r1
                | None \<Rightarrow> r1)
      in (case kill cmd of
            Some kill_method \<Rightarrow> kill_method SIGKILL r2
          | None \<Rightarrow> r2))"

text \<open>
  The \<open>try\<close> block (lines 28 to 134): \<open>Inl\<close> is the value thrown into the
  \<open>catch\<close> block, \<open>Inr\<close> the response returned. The second component lists the
  external work started.
\<close>

definition try_block ::
  "externals \<Rightarrow> jsstring \<Rightarrow> (thrown + download_response) \<times> external_call list" where
  "try_block ext videoId_param =
     (let videoUrl = js ''https://www.youtube.com/watch?v='' @ videoId_param in
      case getInfo ext videoUrl of
        Inl thrown_error \<Rightarrow> (Inl thrown_error, [GetInfoCall videoUrl])
      | Inr info \<Rightarrow>
          (let response_hdrs = response_headers (title (videoDetails info));
               videoStreamNode =
                 ytdl videoUrl \<lparr>quality = js ''highestvideo'', filter = mp4_filter\<rparr>;
               ffmpegOutputPassThrough = PassThrough;
               cmd = ffmpegCommand videoStreamNode;
               readableWebStream =
                 \<lparr>cancel = cancel_callback videoStreamNode ffmpegOutputPassThrough cmd\<rparr>
           in (Inr (VideoStream response_hdrs readableWebStream),
               [GetInfoCall videoUrl, YtdlCall videoUrl, FfmpegPipe cmd])))"

text \<open>
  \<open>GET\<close> (lines 16 to 169), given the value of \<open>searchParams.get('videoId')\<close>.
  \<open>!videoId\<close> holds for \<open>null\<close> and for the empty string.
\<close>

definition GET :: "externals \<Rightarrow> jsstring option \<Rightarrow> download_response \<times> external_call list" where
  "GET ext videoId_query =
     (if \<not> truthy videoId_query
      then (ErrorJson 400 (js ''videoId query parameter is required'') None, [])
      else case videoId_query of
        None \<Rightarrow> (ErrorJson 400 (js ''videoId query parameter is required'') None, [])
      | Some videoId_param \<Rightarrow>
          if \<not> validateID ext videoId_param
          then (ErrorJson 400 (js ''Invalid YouTube video ID'') (Some videoId_param), [])
          else (case try_block ext videoId_param of
                  (Inl thrown_error, calls) \<Rightarrow>
                    (catch_block ext videoId_param thrown_error, calls)
                | (Inr response, calls) \<Rightarrow> (response, calls)))"

section \<open>The listing handler: the \<open>collect-videos\<close> route\<close>

text \<open>
  \<open>YouTubeVideoItem\<close>, as both the handler and the page declare it; every member is
  optional. The thumbnail dimensions are pixel counts; \<open>0\<close> is the falsy number.
\<close>

record medium_thumbnail =
  url :: "jsstring option"
  width :: "int option"
  height :: "int option"

record item_thumbnails =
  medium :: "medium_thumbnail option"

record item_snippet =
  snippet_title :: "jsstring option"
  thumbnails :: "item_thumbnails option"

record item_id =
  id_videoId :: "jsstring option"

record YouTubeVideoItem =
  item_id :: "item_id option"
  snippet :: "item_snippet option"

text \<open>The parameters of \<open>youtube.search.list\<close>.\<close>

record search_params =
  part :: "jsstring list"
  q :: jsstring
  search_type :: "jsstring list"
  maxResults :: nat

text \<open>
  What the handler's \<open>catch\<close> block reads of a value the search call rejects with:
  \<open>response_data_error\<close> is \<open>Some m\<close> when \<open>error.response.data.error\<close> is
  there, \<open>m\<close> being its \<open>message\<close>; \<open>error_message\<close> is \<open>error.message\<close>.
\<close>

record api_error =
  response_data_error :: "jsstring option option"
  error_message :: "jsstring option"

text \<open>
  The search API, a parameter: \<open>search_list auth params\<close> is the outcome of awaiting
  \<open>google.youtube({version: 'v3', auth}).search.list(params)\<close>, \<open>Inr\<close> carrying
  \<open>response.data.items\<close>.
\<close>

type_synonym search_api =
  "jsstring \<Rightarrow> search_params \<Rightarrow> api_error + YouTubeVideoItem list option"

datatype listing_response =
    MessageJson (listing_status: nat) (listing_message: jsstring)
      (listing_error: "jsstring option")
  | VideosJson (listing_status: nat) (listing_videos: "YouTubeVideoItem list")

text \<open>
  \<open>GET\<close> of the listing handler (lines 183 to 221 of \<open>route.ts\<close>, in the
  part that is the \<open>collect-videos\<close> route), given the value of
  \<open>process.env.YOUTUBE_API_KEY\<close>. The second component lists the calls of
  the search API, each with its key and parameters.
\<close>

definition GET_collect_videos ::
  "jsstring option \<Rightarrow> search_api \<Rightarrow> listing_response \<times> (jsstring \<times> search_params) list" where
  "GET_collect_videos env_apiKey search_list =
     (if \<not> truthy env_apiKey
      then (MessageJson 500 (js ''YouTube API Key is not configured on the server.'') None, [])
      else case env_apiKey of
        None \<Rightarrow>
          (MessageJson 500 (js ''YouTube API Key is not configured on the server.'') None, [])
      | Some apiKey \<Rightarrow>
          (let params = \<lparr>part = [js ''snippet''], q = js ''talk about money'',
                          search_type = [js ''video''], maxResults = 10\<rparr>
           in case search_list apiKey params of
                Inr items \<Rightarrow>
                  (VideosJson 200 (case items of None \<Rightarrow> [] | Some videos \<Rightarrow> videos),
                   [(apiKey, params)])
              | Inl thrown_error \<Rightarrow>
                  (let errorMessage =
                         (case response_data_error thrown_error of
                            Some m \<Rightarrow> or_else m (js ''Failed to fetch videos from YouTube.'')
                          | None \<Rightarrow>
                              or_else (error_message thrown_error)
                                (js ''Failed to fetch videos from YouTube.''))
                   in (MessageJson 500 (js ''Error fetching videos from YouTube API.'')
                         (Some errorMessage),
                       [(apiKey, params)]))))"

section \<open>The presentation page: \<open>src/app/page.tsx\<close>\<close>

subsection \<open>Fetching\<close>

text \<open>
  A value thrown inside the page's \<open>try\<close> block, as its \<open>catch\<close> reads it:
  an instance of \<open>Error\<close> with its message, or something else.
\<close>

datatype page_thrown = ErrorInstance jsstring | OtherValue

text \<open>The JSON body of a failed listing request: \<open>{message?, error?}\<close>.\<close>

record errorData =
  errorData_message :: "jsstring option"
  errorData_error :: "jsstring option"

text \<open>
  The response of \<open>fetch\<close>:
  \<^item> \<open>OkResponse j\<close>: \<open>response.ok\<close> holds, and \<open>j\<close> is the outcome of
    \<open>response.json()\<close>, read as \<open>YouTubeVideoItem[]\<close> as the source assumes;
  \<^item> \<open>FailedResponse st d\<close>: \<open>response.ok\<close> does not hold, \<open>st\<close> is
    \<open>response.status\<close>, and \<open>d\<close> is the error data, \<open>None\<close> when the inner
    \<open>try\<close> throws (the body is not JSON, or not an object).
\<close>

datatype fetch_response =
    OkResponse "page_thrown + YouTubeVideoItem list"
  | FailedResponse nat "errorData option"

datatype fetch_outcome = Rejected page_thrown | Resolved fetch_response

text \<open>A number in a template literal, for a non-negative integer: its decimal digits.\<close>

function decimal :: "nat \<Rightarrow> jsstring" where
  "decimal n = (if n < 10 then [0x30 + of_nat n] else decimal (n div 10) @ [0x30 + of_nat (n mod 10)])"
  by pat_completeness auto
termination
  by (relation "measure id") auto

declare decimal.simps [simp del]

text \<open>
  The \<open>try\<close> block of \<open>Home\<close> (lines 17 to 36): \<open>Inl\<close> is the value thrown,
  \<open>Inr\<close> the videos assigned. \<open>fetch\<close> is the runtime's, a parameter.
\<close>

definition fetch_videos ::
  "jsstring option \<Rightarrow> (jsstring \<Rightarrow> fetch_outcome) \<Rightarrow> page_thrown + YouTubeVideoItem list" where
  "fetch_videos env_appUrl fetch =
     (let appUrl = or_else env_appUrl (js ''http://localhost:3000'') in
      case fetch (appUrl @ js ''/api/collect-videos'') of
        Rejected thrown_error \<Rightarrow> Inl thrown_error
      | Resolved (FailedResponse response_status parsed) \<Rightarrow>
          (let errorMessage = js ''API request failed with status '' @ decimal response_status
           in Inl (ErrorInstance
                (case parsed of
                   None \<Rightarrow> errorMessage
                 | Some errorData \<Rightarrow>
                     or_else (errorData_message errorData)
                       (or_else (errorData_error errorData) errorMessage))))
      | Resolved (OkResponse (Inl thrown_error)) \<Rightarrow> Inl thrown_error
      | Resolved (OkResponse (Inr videos)) \<Rightarrow> Inr videos)"

text \<open>
  The state after the \<open>try\<close>/\<open>catch\<close> (lines 14 to 41): \<open>videos\<close> and
  \<open>fetchError\<close>.
\<close>

definition load :: "jsstring option \<Rightarrow> (jsstring \<Rightarrow> fetch_outcome) \<Rightarrow>
    YouTubeVideoItem list \<times> jsstring option" where
  "load env_appUrl fetch =
     (case fetch_videos env_appUrl fetch of
        Inr videos \<Rightarrow> (videos, None)
      | Inl thrown_error \<Rightarrow>
          ([],
           Some (case thrown_error of
                   ErrorInstance message \<Rightarrow> message
                 | OtherValue \<Rightarrow> js ''An unknown error occurred while fetching videos.'')))"

subsection \<open>Rendering\<close>

text \<open>
  One card of the grid: the link and the image of a video. Reading a member of
  \<open>undefined\<close> throws a \<open>TypeError\<close>, which would fail the render.
\<close>

datatype js_error = TypeError

record image =
  image_src :: "jsstring option"
  image_alt :: jsstring
  image_width :: int
  image_height :: int

record card =
  card_key :: "jsstring option"
  card_href :: jsstring
  card_image :: "image option"
  card_title :: "jsstring option"

text \<open>\<open>a || b\<close> for an optional number \<open>a\<close>.\<close>

definition or_else_number :: "int option \<Rightarrow> int \<Rightarrow> int" where
  "or_else_number a b = (case a of None \<Rightarrow> b | Some n \<Rightarrow> if n = 0 then b else n)"

text \<open>
  The callback of \<open>videos.map\<close> (lines 56 to 83); \<open>Inr None\<close> is \<open>return null\<close>.
  \<open>x?.m\<close> is \<open>Option.bind x m\<close>; \<open>video.snippet.title\<close>, in the returned
  element, has no \<open>?.\<close>.
\<close>

definition render_video :: "YouTubeVideoItem \<Rightarrow> js_error + card option" where
  "render_video video =
     (let videoId_opt = Option.bind (item_id video) id_videoId;
          videoUrl = (case videoId_opt of
                        None \<Rightarrow> js ''#''
                      | Some v \<Rightarrow> if v = [] then js ''#''
                                  else js ''https://www.youtube.com/watch?v='' @ v);
          medium_opt = Option.bind (Option.bind (snippet video) thumbnails) medium;
          thumbnailUrl = Option.bind medium_opt url;
          thumbnailWidth = or_else_number (Option.bind medium_opt width) 320;
          thumbnailHeight = or_else_number (Option.bind medium_opt height) 180
      in if \<not> truthy videoId_opt \<or> \<not> truthy (Option.bind (snippet video) snippet_title) \<or>
            \<not> truthy thumbnailUrl
         then Inr None
         else (case snippet video of
                 None \<Rightarrow> Inl TypeError
               | Some video_snippet \<Rightarrow>
                   Inr (Some
                     \<lparr>card_key = videoId_opt,
                      card_href = videoUrl,
                      card_image =
                        (if truthy thumbnailUrl
                         then Some \<lparr>image_src = thumbnailUrl,
                                    image_alt = or_else (snippet_title video_snippet)
                                                  (js ''Video thumbnail''),
                                    image_width = thumbnailWidth,
                                    image_height = thumbnailHeight\<rparr>
                         else None),
                      card_title = snippet_title video_snippet\<rparr>)))"

text \<open>\<open>videos.map(...)\<close>: the first callback that throws ends the render.\<close>

fun render_videos :: "YouTubeVideoItem list \<Rightarrow> js_error + card option list" where
  "render_videos [] = Inr []"
| "render_videos (video # videos) =
     (case render_video video of
        Inl e \<Rightarrow> Inl e
      | Inr c \<Rightarrow> (case render_videos videos of Inl e \<Rightarrow> Inl e | Inr cs \<Rightarrow> Inr (c # cs)))"

text \<open>
  The three conditional sections of \<open>main\<close> (lines 50 to 94). A section whose
  condition is falsy renders nothing.
\<close>

datatype page_section =
    VideoGrid "card option list"
  | NoVideosFound
  | ErrorParagraph jsstring

definition render :: "YouTubeVideoItem list \<Rightarrow> jsstring option \<Rightarrow> js_error + page_section list" where
  "render videos fetchError =
     (case (if \<not> truthy fetchError \<and> length videos > 0
            then (case render_videos videos of
                    Inl e \<Rightarrow> Inl e
                  | Inr cards \<Rightarrow> Inr [VideoGrid cards])
            else Inr []) of
        Inl e \<Rightarrow> Inl e
      | Inr grid \<Rightarrow>
          Inr (grid @
               (if \<not> truthy fetchError \<and> length videos = 0 then [NoVideosFound] else []) @
               (case fetchError of
                  None \<Rightarrow> []
                | Some message \<Rightarrow> if message = [] then [] else [ErrorParagraph message])))"

text \<open>\<open>Home\<close>: load, then render.\<close>

definition Home :: "jsstring option \<Rightarrow> (jsstring \<Rightarrow> fetch_outcome) \<Rightarrow> js_error + page_section list" where
  "Home env_appUrl fetch =
     (case load env_appUrl fetch of (videos, fetchError) \<Rightarrow> render videos fetchError)"

section \<open>Example inputs\<close>

text \<open>
  Concrete values for the parameters, used where a statement is evaluated at an input.
  \<open>ascii_toLowerCase\<close> is what \<open>toLowerCase\<close> does to a string whose only cased
  code units are ASCII letters; the example validator accepts the strings of eleven
  code units. \<open>bot_check_message\<close> holds the three code units of line 155
  between \<open>you\<close> and \<open>re\<close>; \<open>apostrophe_message\<close> holds the right single
  quotation mark U+2019 there, as the text of the video host does.
\<close>

definition ascii_toLowerCase :: "jsstring \<Rightarrow> jsstring" where
  "ascii_toLowerCase s = map (\<lambda>c. if 0x41 \<le> c \<and> c \<le> 0x5A then c + 0x20 else c) s"

definition example_externals :: "thrown + videoInfo \<Rightarrow> externals" where
  "example_externals outcome =
     \<lparr>toLowerCase = ascii_toLowerCase, validateID = (\<lambda>s. length s = 11),
      getInfo = (\<lambda>_. outcome)\<rparr>"

definition example_videoId :: jsstring where
  "example_videoId = js ''dQw4w9WgXcQ''"

definition example_url :: jsstring where
  "example_url = js ''https://www.youtube.com/watch?v=dQw4w9WgXcQ''"

definition bot_check_message :: jsstring where
  "bot_check_message = js ''Please confirm you'' @ [0xE2, 0x20AC, 0x2122] @ js ''re not a bot''"


definition example_info :: "jsstring option \<Rightarrow> videoInfo" where
  "example_info t = \<lparr>videoDetails = \<lparr>title = t\<rparr>\<rparr>"

definition example_resources :: resources where
  "example_resources =
     \<lparr>videoStreamNode_destroyed = False, ffmpegOutputPassThrough_destroyed = False,
      ffmpegCommand_signals = []\<rparr>"

definition example_item :: YouTubeVideoItem where
  "example_item =
     \<lparr>item_id = Some \<lparr>id_videoId = Some (js ''dQw4w9WgXcQ'')\<rparr>,
      snippet = Some \<lparr>snippet_title = Some (js ''Money talk''),
        thumbnails = Some \<lparr>medium = Some \<lparr>url = Some (js ''https://i.ytimg.com/vi/dQw4w9WgXcQ/mqdefault.jpg''),
          width = None, height = None\<rparr>\<rparr>\<rparr>\<rparr>"

definition untitled_item :: YouTubeVideoItem where
  "untitled_item =
     \<lparr>item_id = Some \<lparr>id_videoId = Some (js ''dQw4w9WgXcQ'')\<rparr>, snippet = None\<rparr>"

definition example_search :: "YouTubeVideoItem list option \<Rightarrow> search_api" where
  "example_search items = (\<lambda>auth params. Inr items)"

definition example_fetch :: "fetch_outcome \<Rightarrow> jsstring \<Rightarrow> fetch_outcome" where
  "example_fetch outcome = (\<lambda>requested. outcome)"

section \<open>Facts about the string functions\<close>

lemma str_includes_sublist: "str_includes s t \<longleftrightarrow> sublist t s"
  by (induction s) (auto simp: sublist_Cons_right)


lemma truthy_Some [simp]: "truthy (Some s) \<longleftrightarrow> s \<noteq> []"
  by (simp add: truthy_def)

lemma truthy_None [simp]: "\<not> truthy None"
  by (simp add: truthy_def)

lemma truthy_iff: "truthy v \<longleftrightarrow> (\<exists>s. v = Some s \<and> s \<noteq> [])"
  by (cases v) simp_all

lemma substring_0: "substring s 0 n = take n s"
  by (simp add: substring_def)

lemma is_space_not_kept:
  "\<not> is_space underscore" "\<not> is_space hyphen" "\<not> is_space dot" "is_word underscore"
  by (simp_all add: is_space_def is_word_def underscore_def hyphen_def dot_def)

lemma replace_spaces_set:
  "set (replace_spaces s) \<subseteq> insert underscore {c \<in> set s. \<not> is_space c}"
proof (induction s rule: replace_spaces.induct)
  case 1
  then show ?case by simp
next
  case (2 c cs)
  show ?case
  proof (cases "is_space c")
    case True
    have "set (dropWhile is_space cs) \<subseteq> set cs"
      by (rule set_dropWhileD [THEN subsetI])
    with 2(1) [OF True] True show ?thesis by auto
  next
    case False
    with 2(2) [OF False] show ?thesis by auto
  qed
qed

lemma replace_spaces_word:
  "\<forall>c \<in> set w. \<not> is_space c \<Longrightarrow> replace_spaces (w @ rest) = w @ replace_spaces rest"
  by (induction w) simp_all

lemma replace_spaces_run:
  assumes "run \<noteq> []" and "\<forall>c \<in> set run. is_space c"
    and "rest = [] \<or> \<not> is_space (hd rest)"
  shows "replace_spaces (run @ rest) = underscore # replace_spaces rest"
proof -
  from assms(1) obtain c cs where run: "run = c # cs"
    by (cases run) auto
  have "dropWhile is_space (cs @ rest) = dropWhile is_space rest"
    using assms(2) run by (simp add: dropWhile_append)
  also have "dropWhile is_space rest = rest"
    using assms(3) by (cases rest) auto
  finally show ?thesis
    using assms(2) run by simp
qed

lemma sanitizedFilenameBase_safe:
  assumes "c \<in> set (sanitizedFilenameBase t)"
  shows "is_word c \<or> c = hyphen \<or> c = dot"
proof -
  let ?s = "replace_unsafe (or_else t (js ''youtube_video''))"
  from assms have "c \<in> set (replace_spaces ?s)"
    by (auto simp: sanitizedFilenameBase_def substring_0 Let_def dest: in_set_takeD)
  with replace_spaces_set [of ?s]
  have "c = underscore \<or> (c \<in> set ?s \<and> \<not> is_space c)"
    by auto
  then show ?thesis
  proof
    assume "c = underscore"
    then show ?thesis by (simp add: is_space_not_kept)
  next
    assume "c \<in> set ?s \<and> \<not> is_space c"
    then show ?thesis
      by (auto simp: replace_unsafe_def is_space_not_kept split: if_splits)
  qed
qed

section \<open>Facts about the download handler\<close>

lemma catch_block_is_error:
  "\<exists>code msg. catch_block ext v e = ErrorJson code msg (Some v)"
  by (cases e) (simp_all add: catch_block_def Let_def)

lemma GET_falsy:
  "\<not> truthy p \<Longrightarrow>
     GET ext p = (ErrorJson 400 (js ''videoId query parameter is required'') None, [])"
  by (simp add: GET_def)

lemma GET_invalid:
  "v \<noteq> [] \<Longrightarrow> \<not> validateID ext v \<Longrightarrow>
     GET ext (Some v) = (ErrorJson 400 (js ''Invalid YouTube video ID'') (Some v), [])"
  by (simp add: GET_def)

lemma GET_setup_error:
  assumes "v \<noteq> []" and "validateID ext v"
    and "getInfo ext (js ''https://www.youtube.com/watch?v='' @ v) = Inl e"
  shows "GET ext (Some v) =
    (catch_block ext v e, [GetInfoCall (js ''https://www.youtube.com/watch?v='' @ v)])"
  using assms by (simp add: GET_def try_block_def)

lemma GET_stream:
  assumes "v \<noteq> []" and "validateID ext v"
    and "getInfo ext (js ''https://www.youtube.com/watch?v='' @ v) = Inr info"
  shows "GET ext (Some v) =
    (VideoStream (response_headers (title (videoDetails info)))
       \<lparr>cancel =
          cancel_callback
            (ytdl (js ''https://www.youtube.com/watch?v='' @ v)
               \<lparr>quality = js ''highestvideo'', filter = mp4_filter\<rparr>)
            PassThrough
            (ffmpegCommand
               (ytdl (js ''https://www.youtube.com/watch?v='' @ v)
                  \<lparr>quality = js ''highestvideo'', filter = mp4_filter\<rparr>))\<rparr>,
     [GetInfoCall (js ''https://www.youtube.com/watch?v='' @ v),
      YtdlCall (js ''https://www.youtube.com/watch?v='' @ v),
      FfmpegPipe
        (ffmpegCommand
           (ytdl (js ''https://www.youtube.com/watch?v='' @ v)
              \<lparr>quality = js ''highestvideo'', filter = mp4_filter\<rparr>))])"
  using assms by (simp add: GET_def try_block_def Let_def)

lemma GET_cases:
  obtains (missing) "\<not> truthy p"
      and "GET ext p = (ErrorJson 400 (js ''videoId query parameter is required'') None, [])"
  | (invalid) v where "p = Some v" and "v \<noteq> []" and "\<not> validateID ext v"
      and "GET ext p = (ErrorJson 400 (js ''Invalid YouTube video ID'') (Some v), [])"
  | (failed) v e where "p = Some v" and "v \<noteq> []" and "validateID ext v"
      and "getInfo ext (js ''https://www.youtube.com/watch?v='' @ v) = Inl e"
      and "GET ext p =
        (catch_block ext v e, [GetInfoCall (js ''https://www.youtube.com/watch?v='' @ v)])"
  | (streamed) v info where "p = Some v" and "v \<noteq> []" and "validateID ext v"
      and "getInfo ext (js ''https://www.youtube.com/watch?v='' @ v) = Inr info"
proof (cases "truthy p")
  case False
  then show ?thesis using missing GET_falsy by blast
next
  case True
  then obtain v where v: "p = Some v" "v \<noteq> []"
    by (auto simp: truthy_iff)
  show ?thesis
  proof (cases "validateID ext v")
    case False
    then show ?thesis using invalid v GET_invalid by blast
  next
    case valid: True
    show ?thesis
    proof (cases "getInfo ext (js ''https://www.youtube.com/watch?v='' @ v)")
      case (Inl e)
      then show ?thesis using failed v valid GET_setup_error by blast
    next
      case (Inr info)
      then show ?thesis using streamed v valid by blast
    qed
  qed
qed

lemma ffmpegCommand_settings:
  "startTime (ffmpegCommand src) = Some (js ''00:00:00'')"
  "duration (ffmpegCommand src) = Some 30"
  "outputFormat (ffmpegCommand src) = Some (js ''mp4'')"
  "outputOpts (ffmpegCommand src) =
     [js ''-movflags frag_keyframe+empty_moov'', js ''-preset ultrafast'',
      js ''-tune zerolatency'']"
  "input (ffmpegCommand src) = src"
  by (simp_all add: ffmpegCommand_def outputOptions_def toFormat_def setDuration_def
      setStartTime_def ffmpeg_def)

lemma ffmpegCommand_kill:
  "kill (ffmpegCommand src) =
     Some (\<lambda>sig r. r\<lparr>ffmpegCommand_signals := ffmpegCommand_signals r @ [sig]\<rparr>)"
  by (simp add: ffmpegCommand_def outputOptions_def toFormat_def setDuration_def
      setStartTime_def ffmpeg_def)

lemma cancel_callback_teardown:
  "cancel_callback (ytdl u opts) PassThrough (ffmpegCommand src) r =
     r\<lparr>videoStreamNode_destroyed := True, ffmpegOutputPassThrough_destroyed := True,
       ffmpegCommand_signals := ffmpegCommand_signals r @ [SIGKILL]\<rparr>"
  by (simp add: cancel_callback_def ytdl_def PassThrough_def ffmpegCommand_kill)

lemma example_externals_simps:
  "toLowerCase (example_externals outcome) = ascii_toLowerCase"
  "validateID (example_externals outcome) s = (length s = 11)"
  "getInfo (example_externals outcome) u = outcome"
  by (simp_all add: example_externals_def)

lemma example_videoId_facts:
  "length example_videoId = 11"
  "example_videoId \<noteq> []"
  "js ''https://www.youtube.com/watch?v='' @ example_videoId = example_url"
  by (simp_all add: example_videoId_def example_url_def js_def)

lemma bot_check_includes:
  "\<not> str_includes (ascii_toLowerCase bot_check_message) (js ''unavailable'')"
  "\<not> str_includes (ascii_toLowerCase bot_check_message) (js ''private'')"
  "\<not> str_includes (ascii_toLowerCase bot_check_message) (js ''video not found'')"
  "\<not> str_includes (ascii_toLowerCase bot_check_message) (js ''extract function'')"
  "\<not> str_includes (ascii_toLowerCase bot_check_message) (js ''cipher'')"
  "\<not> str_includes (ascii_toLowerCase bot_check_message) (js ''signature'')"
  "\<not> str_includes (ascii_toLowerCase bot_check_message) (js ''no formats found matching quality'')"
  "\<not> str_includes (ascii_toLowerCase bot_check_message) (js ''no such format found'')"
  "\<not> str_includes (ascii_toLowerCase bot_check_message) (js ''sign in to confirm'')"
  "str_includes (ascii_toLowerCase bot_check_message) confirm_not_a_bot"
  by (simp_all add: ascii_toLowerCase_def bot_check_message_def confirm_not_a_bot_def js_def)




section \<open>Facts about the presentation page\<close>



lemma render_video_total: "\<exists>c. render_video video = Inr c"
  unfolding render_video_def Let_def
  by (cases "snippet video") simp_all

lemma render_video_skips:
  "Option.bind (item_id video) id_videoId = None \<or>
   Option.bind (snippet video) snippet_title = None \<or>
   Option.bind (Option.bind (Option.bind (snippet video) thumbnails) medium) url = None \<Longrightarrow>
   render_video video = Inr None"
  unfolding render_video_def Let_def
  by (elim disjE) simp_all

lemma render_video_falsy:
  "\<not> truthy (Option.bind (item_id video) id_videoId) \<or>
   \<not> truthy (Option.bind (snippet video) snippet_title) \<or>
   \<not> truthy (Option.bind (Option.bind (Option.bind (snippet video) thumbnails) medium) url) \<Longrightarrow>
   render_video video = Inr None"
  unfolding render_video_def Let_def by (simp only: if_True)

lemma render_video_shown:
  assumes "truthy (Option.bind (item_id video) id_videoId)"
    and "truthy (Option.bind (snippet video) snippet_title)"
    and "truthy (Option.bind (Option.bind (Option.bind (snippet video) thumbnails) medium) url)"
    and "snippet video = Some video_snippet"
  shows "render_video video = Inr (Some
     \<lparr>card_key = Option.bind (item_id video) id_videoId,
      card_href =
        (case Option.bind (item_id video) id_videoId of
           None \<Rightarrow> js ''#''
         | Some v \<Rightarrow> if v = [] then js ''#'' else js ''https://www.youtube.com/watch?v='' @ v),
      card_image =
        Some \<lparr>image_src =
                 Option.bind (Option.bind (Option.bind (snippet video) thumbnails) medium) url,
              image_alt = or_else (snippet_title video_snippet) (js ''Video thumbnail''),
              image_width = or_else_number
                (Option.bind (Option.bind (Option.bind (snippet video) thumbnails) medium) width)
                320,
              image_height = or_else_number
                (Option.bind (Option.bind (Option.bind (snippet video) thumbnails) medium) height)
                180\<rparr>,
      card_title = snippet_title video_snippet\<rparr>)"
  unfolding render_video_def Let_def using assms by simp

lemma render_video_card:
  assumes "render_video video = Inr (Some c)"
  shows "\<exists>img. card_image c = Some img \<and>
    image_width img =
      or_else_number
        (Option.bind (Option.bind (Option.bind (snippet video) thumbnails) medium) width) 320 \<and>
    image_height img =
      or_else_number
        (Option.bind (Option.bind (Option.bind (snippet video) thumbnails) medium) height) 180"
proof (cases "truthy (Option.bind (item_id video) id_videoId) \<and>
    truthy (Option.bind (snippet video) snippet_title) \<and>
    truthy (Option.bind (Option.bind (Option.bind (snippet video) thumbnails) medium) url)")
  case False
  then have "render_video video = Inr None"
    using render_video_falsy [of video] by blast
  with assms show ?thesis by simp
next
  case True
  then obtain video_snippet where "snippet video = Some video_snippet"
    by (cases "snippet video") simp_all
  from render_video_shown [OF _ _ _ this] True assms show ?thesis
    by auto
qed

lemma render_videos_total:
  "\<exists>cards. render_videos videos = Inr cards \<and> length cards = length videos \<and>
     (\<forall>i < length videos. render_video (videos ! i) = Inr (cards ! i))"
proof (induction videos)
  case Nil
  then show ?case by simp
next
  case (Cons video videos)
  then obtain cards where cards: "render_videos videos = Inr cards"
    "length cards = length videos"
    "\<forall>i < length videos. render_video (videos ! i) = Inr (cards ! i)"
    by blast
  obtain c where c: "render_video video = Inr c"
    using render_video_total by blast
  have "\<forall>i < length (video # videos). render_video ((video # videos) ! i) = Inr ((c # cards) ! i)"
    using c cards(3) by (auto simp: nth_Cons split: nat.splits)
  with c cards(1,2) show ?case by simp
qed

lemma render_sections:
  "\<exists>cards. render_videos videos = Inr cards \<and>
     render videos fetchError =
       Inr (case fetchError of
              None \<Rightarrow> if videos = [] then [NoVideosFound] else [VideoGrid cards]
            | Some message \<Rightarrow>
                if message \<noteq> [] then [ErrorParagraph message]
                else if videos = [] then [NoVideosFound] else [VideoGrid cards])"
proof -
  obtain cards where "render_videos videos = Inr cards"
    using render_videos_total by blast
  then show ?thesis
    by (cases fetchError) (auto simp: render_def)
qed

lemma load_error_empties: "load env_appUrl fetch = (videos, Some message) \<Longrightarrow> videos = []"
  by (auto simp: load_def split: sum.splits)

lemma Home_load:
  "load env_appUrl fetch = (videos, fetchError) \<Longrightarrow>
     Home env_appUrl fetch = render videos fetchError"
  by (simp add: Home_def)

section \<open>The properties of the specification\<close>



text \<open>
  C2 (as amended). \<open>GET\<close> validates the identifier before any external work:
  \<^item> when \<open>videoId\<close> is absent or empty, the answer is status 400 with error
    \<open>videoId query parameter is required\<close> and \<open>videoId\<close> null, and nothing external
    is started;
  \<^item> when it is non-empty and \<open>validateID\<close> rejects it, the answer is status 400 with
    error \<open>Invalid YouTube video ID\<close>, and nothing external is started;
  \<^item> external work is started only for a non-empty, valid \<open>videoId\<close>, and then it
    starts with the \<open>getInfo\<close> request for that video.
\<close>

theorem download_validates_videoId:
  "(p = None \<or> p = Some [] \<longrightarrow>
      GET ext p = (ErrorJson 400 (js ''videoId query parameter is required'') None, [])) \<and>
   (\<forall>v. p = Some v \<and> v \<noteq> [] \<and> \<not> validateID ext v \<longrightarrow>
      GET ext p = (ErrorJson 400 (js ''Invalid YouTube video ID'') (Some v), [])) \<and>
   (snd (GET ext p) \<noteq> [] \<longrightarrow> (\<exists>v. p = Some v \<and> v \<noteq> [] \<and> validateID ext v)) \<and>
   (\<forall>v. p = Some v \<and> v \<noteq> [] \<and> validateID ext v \<longrightarrow>
      (\<exists>calls. snd (GET ext p) =
         GetInfoCall (js ''https://www.youtube.com/watch?v='' @ v) # calls))"
proof (intro conjI allI impI)
  assume "p = None \<or> p = Some []"
  then have "\<not> truthy p" by auto
  then show "GET ext p = (ErrorJson 400 (js ''videoId query parameter is required'') None, [])"
    by (rule GET_falsy)
next
  fix v
  assume "p = Some v \<and> v \<noteq> [] \<and> \<not> validateID ext v"
  then show "GET ext p = (ErrorJson 400 (js ''Invalid YouTube video ID'') (Some v), [])"
    by (simp add: GET_invalid)
next
  assume calls: "snd (GET ext p) \<noteq> []"
  show "\<exists>v. p = Some v \<and> v \<noteq> [] \<and> validateID ext v"
  proof (cases rule: GET_cases [of p ext])
    case missing
    with calls show ?thesis by simp
  next
    case (invalid v)
    with calls show ?thesis by simp
  next
    case (failed v e)
    then show ?thesis by simp
  next
    case (streamed v info)
    then show ?thesis by simp
  qed
next
  fix v
  assume v: "p = Some v \<and> v \<noteq> [] \<and> validateID ext v"
  show "\<exists>calls. snd (GET ext p) = GetInfoCall (js ''https://www.youtube.com/watch?v='' @ v) # calls"
  proof (cases "getInfo ext (js ''https://www.youtube.com/watch?v='' @ v)")
    case (Inl e)
    with v show ?thesis by (simp add: GET_setup_error)
  next
    case (Inr info)
    with v show ?thesis by (simp add: GET_stream)
  qed
qed

text \<open>
  Witness for C2: with a validator that accepts eleven code units and a \<open>getInfo\<close>
  that resolves, an absent and an empty \<open>videoId\<close> are answered as missing, \<open>abc\<close>
  as invalid, and \<open>dQw4w9WgXcQ\<close> starts with its \<open>getInfo\<close> request.
\<close>

theorem download_validates_videoId_witness:
  "GET (example_externals (Inr (example_info None))) None =
     (ErrorJson 400 (js ''videoId query parameter is required'') None, []) \<and>
   GET (example_externals (Inr (example_info None))) (Some []) =
     (ErrorJson 400 (js ''videoId query parameter is required'') None, []) \<and>
   \<not> validateID (example_externals (Inr (example_info None))) (js ''abc'') \<and>
   GET (example_externals (Inr (example_info None))) (Some (js ''abc'')) =
     (ErrorJson 400 (js ''Invalid YouTube video ID'') (Some (js ''abc'')), []) \<and>
   validateID (example_externals (Inr (example_info None))) example_videoId \<and>
   snd (GET (example_externals (Inr (example_info None))) (Some example_videoId)) \<noteq> [] \<and>
   (\<exists>calls. snd (GET (example_externals (Inr (example_info None))) (Some example_videoId)) =
      GetInfoCall (js ''https://www.youtube.com/watch?v='' @ example_videoId) # calls)"
proof -
  let ?ext = "example_externals (Inr (example_info None))"
  have abc: "js ''abc'' \<noteq> []" "\<not> validateID ?ext (js ''abc'')"
    by (simp_all add: example_externals_simps js_def)
  have ok: "example_videoId \<noteq> []" "validateID ?ext example_videoId"
    by (simp_all add: example_externals_simps example_videoId_facts(1,2))
  have calls: "\<exists>calls. snd (GET ?ext (Some example_videoId)) =
      GetInfoCall (js ''https://www.youtube.com/watch?v='' @ example_videoId) # calls"
    using download_validates_videoId [of "Some example_videoId" ?ext] ok by simp
  then have "snd (GET ?ext (Some example_videoId)) \<noteq> []"
    by auto
  with calls abc ok show ?thesis
    using download_validates_videoId [of None ?ext]
      download_validates_videoId [of "Some []" ?ext]
      download_validates_videoId [of "Some (js ''abc'')" ?ext]
    by simp
qed

text \<open>
  Counterexample to C2 as stated. The request \<open>?videoId=\<close> has the parameter, with
  the empty string as its value, and the validator rejects the empty string; the claim
  gives the error \<open>Invalid YouTube video ID\<close>, the handler answers
  \<open>videoId query parameter is required\<close> with \<open>videoId\<close> null.
\<close>

theorem download_validates_videoId_counterexample:
  "\<not> validateID (example_externals (Inr (example_info None))) [] \<and>
   fst (GET (example_externals (Inr (example_info None))) (Some [])) =
     ErrorJson 400 (js ''videoId query parameter is required'') None \<and>
   error (fst (GET (example_externals (Inr (example_info None))) (Some []))) \<noteq>
     js ''Invalid YouTube video ID''"
  by (simp add: GET_falsy example_externals_simps) (simp add: js_def)

text \<open>
  C3. When \<open>YOUTUBE_API_KEY\<close> is absent, the listing handler answers status 500 with
  the message \<open>YouTube API Key is not configured on the server.\<close> and does not call
  the search API; it calls the search API, and it answers with a video list, only when
  the credential is present.
\<close>

theorem listing_requires_api_key:
  "GET_collect_videos None search_list =
     (MessageJson 500 (js ''YouTube API Key is not configured on the server.'') None, []) \<and>
   (snd (GET_collect_videos env_apiKey search_list) \<noteq> [] \<longrightarrow>
      (\<exists>apiKey. env_apiKey = Some apiKey \<and> apiKey \<noteq> [])) \<and>
   (\<forall>code videos. fst (GET_collect_videos env_apiKey search_list) = VideosJson code videos \<longrightarrow>
      (\<exists>apiKey. env_apiKey = Some apiKey \<and> apiKey \<noteq> []))"
  by (cases env_apiKey)
    (auto simp: GET_collect_videos_def Let_def split: sum.splits if_splits)

text \<open>
  Witness for C3: with the key \<open>KEY\<close> and a search that returns one item, the API is
  called and the list is answered; without the key it is not.
\<close>

theorem listing_requires_api_key_witness:
  "GET_collect_videos None (example_search (Some [example_item])) =
     (MessageJson 500 (js ''YouTube API Key is not configured on the server.'') None, []) \<and>
   snd (GET_collect_videos (Some (js ''KEY'')) (example_search (Some [example_item]))) \<noteq> [] \<and>
   fst (GET_collect_videos (Some (js ''KEY'')) (example_search (Some [example_item]))) =
     VideosJson 200 [example_item] \<and>
   (\<exists>apiKey. Some (js ''KEY'') = Some apiKey \<and> apiKey \<noteq> [])"
proof -
  have run: "GET_collect_videos (Some (js ''KEY'')) (example_search (Some [example_item])) =
      (VideosJson 200 [example_item],
       [(js ''KEY'', \<lparr>part = [js ''snippet''], q = js ''talk about money'',
           search_type = [js ''video''], maxResults = 10\<rparr>)])"
    by (simp add: GET_collect_videos_def example_search_def js_def)
  then have "snd (GET_collect_videos (Some (js ''KEY'')) (example_search (Some [example_item]))) \<noteq> []"
    by simp
  with run show ?thesis
    using listing_requires_api_key [of "example_search (Some [example_item])" "Some (js ''KEY'')"]
    by simp
qed

text \<open>
  C4. For every non-empty, valid \<open>videoId\<close> whose info resolves, \<open>GET\<close> answers with
  the stream and pipes one transcoding command, whose start time is \<open>00:00:00\<close>, whose
  duration is 30 seconds, whose format is \<open>mp4\<close> and whose output options are
  \<open>-movflags frag_keyframe+empty_moov\<close>, \<open>-preset ultrafast\<close> and
  \<open>-tune zerolatency\<close>, whatever the request and the info.
\<close>

theorem download_transcoding_command:
  assumes "v \<noteq> []" and "validateID ext v"
    and "getInfo ext (js ''https://www.youtube.com/watch?v='' @ v) = Inr info"
  shows "\<exists>hdrs stream cmd.
    GET ext (Some v) =
      (VideoStream hdrs stream,
       [GetInfoCall (js ''https://www.youtube.com/watch?v='' @ v),
        YtdlCall (js ''https://www.youtube.com/watch?v='' @ v),
        FfmpegPipe cmd]) \<and>
    source_url (input cmd) = js ''https://www.youtube.com/watch?v='' @ v \<and>
    startTime cmd = Some (js ''00:00:00'') \<and>
    duration cmd = Some 30 \<and>
    outputFormat cmd = Some (js ''mp4'') \<and>
    outputOpts cmd =
      [js ''-movflags frag_keyframe+empty_moov'', js ''-preset ultrafast'',
       js ''-tune zerolatency'']"
  unfolding GET_stream [OF assms]
  by (simp add: ffmpegCommand_settings ytdl_def)

text \<open>Witness for C4: the video \<open>dQw4w9WgXcQ\<close>, titled \<open>Money talk\<close>.\<close>

theorem download_transcoding_command_witness:
  "example_videoId \<noteq> [] \<and>
   validateID (example_externals (Inr (example_info (Some (js ''Money talk''))))) example_videoId \<and>
   (\<exists>hdrs stream cmd.
      GET (example_externals (Inr (example_info (Some (js ''Money talk''))))) (Some example_videoId) =
        (VideoStream hdrs stream,
         [GetInfoCall example_url, YtdlCall example_url, FfmpegPipe cmd]) \<and>
      source_url (input cmd) = example_url \<and>
      startTime cmd = Some (js ''00:00:00'') \<and>
      duration cmd = Some 30 \<and>
      outputFormat cmd = Some (js ''mp4'') \<and>
      outputOpts cmd =
        [js ''-movflags frag_keyframe+empty_moov'', js ''-preset ultrafast'',
         js ''-tune zerolatency''])"
  using download_transcoding_command [of example_videoId
      "example_externals (Inr (example_info (Some (js ''Money talk''))))"
      "example_info (Some (js ''Money talk''))"]
  by (simp add: example_externals_simps example_videoId_facts)

text \<open>
  C5. With the credential present (a non-empty key), the listing handler calls the
  search API exactly once, with that key, \<open>part\<close> \<open>['snippet']\<close>, \<open>type\<close>
  \<open>['video']\<close>, the query \<open>talk about money\<close> and \<open>maxResults\<close> 10; and when
  the call returns, the JSON response is its \<open>items\<close>, or the empty list when
  \<open>items\<close> is absent.
\<close>

theorem listing_single_search_call:
  assumes "apiKey \<noteq> []"
  shows "snd (GET_collect_videos (Some apiKey) search_list) =
      [(apiKey, \<lparr>part = [js ''snippet''], q = js ''talk about money'',
          search_type = [js ''video''], maxResults = 10\<rparr>)] \<and>
    (\<forall>items.
       search_list apiKey \<lparr>part = [js ''snippet''], q = js ''talk about money'',
          search_type = [js ''video''], maxResults = 10\<rparr> = Inr items \<longrightarrow>
       fst (GET_collect_videos (Some apiKey) search_list) =
         VideosJson 200 (case items of None \<Rightarrow> [] | Some videos \<Rightarrow> videos))"
  using assms
  by (auto simp: GET_collect_videos_def Let_def split: sum.splits)

text \<open>
  Witness for C5: with the key \<open>KEY\<close>, once for a search that returns one item and
  once for a search whose result has no \<open>items\<close>.
\<close>

theorem listing_single_search_call_witness:
  "js ''KEY'' \<noteq> [] \<and>
   snd (GET_collect_videos (Some (js ''KEY'')) (example_search (Some [example_item]))) =
     [(js ''KEY'', \<lparr>part = [js ''snippet''], q = js ''talk about money'',
         search_type = [js ''video''], maxResults = 10\<rparr>)] \<and>
   fst (GET_collect_videos (Some (js ''KEY'')) (example_search (Some [example_item]))) =
     VideosJson 200 [example_item] \<and>
   fst (GET_collect_videos (Some (js ''KEY'')) (example_search None)) = VideosJson 200 []"
proof -
  have key: "js ''KEY'' \<noteq> []"
    by (simp add: js_def)
  show ?thesis
    using key listing_single_search_call [OF key, of "example_search (Some [example_item])"]
      listing_single_search_call [OF key, of "example_search None"]
    by (simp add: example_search_def)
qed



text \<open>
  C7. Whenever \<open>GET\<close> answers with a stream, the stream's cancel callback, run in any
  state of the three resources, leaves the source stream destroyed, the pass-through
  stream destroyed, and \<open>SIGKILL\<close> sent to the transcoding command.
\<close>

theorem download_cancel_teardown:
  assumes "GET ext p = (VideoStream hdrs stream, calls)"
  shows "cancel stream r =
    r\<lparr>videoStreamNode_destroyed := True, ffmpegOutputPassThrough_destroyed := True,
      ffmpegCommand_signals := ffmpegCommand_signals r @ [SIGKILL]\<rparr>"
proof (cases rule: GET_cases [of p ext])
  case missing
  with assms show ?thesis by simp
next
  case (invalid v)
  with assms show ?thesis by simp
next
  case (failed v e)
  with assms catch_block_is_error [of ext v e] show ?thesis by auto
next
  case (streamed v info)
  with assms GET_stream [of v ext info] show ?thesis
    by (auto simp: cancel_callback_teardown)
qed

text \<open>
  Witness for C7: the stream answered for \<open>dQw4w9WgXcQ\<close>, cancelled while nothing is
  torn down yet.
\<close>

theorem download_cancel_teardown_witness:
  "\<exists>hdrs stream calls.
     GET (example_externals (Inr (example_info None))) (Some example_videoId) =
       (VideoStream hdrs stream, calls) \<and>
     cancel stream example_resources =
       \<lparr>videoStreamNode_destroyed = True, ffmpegOutputPassThrough_destroyed = True,
        ffmpegCommand_signals = [SIGKILL]\<rparr>"
proof -
  let ?ext = "example_externals (Inr (example_info None))"
  obtain hdrs stream calls
    where run: "GET ?ext (Some example_videoId) = (VideoStream hdrs stream, calls)"
    using GET_stream [of example_videoId ?ext "example_info None"]
    by (simp add: example_externals_simps example_videoId_facts(1,2))
  from download_cancel_teardown [OF run, of example_resources]
  have "cancel stream example_resources =
      \<lparr>videoStreamNode_destroyed = True, ffmpegOutputPassThrough_destroyed = True,
       ffmpegCommand_signals = [SIGKILL]\<rparr>"
    by (simp add: example_resources_def)
  with run show ?thesis by blast
qed



text \<open>
  C9. Rendering a list of items never fails, whatever members the items lack: every item
  yields a card or nothing, in order; an item that lacks its \<open>videoId\<close>, its snippet
  title or its medium thumbnail URL yields nothing; and in a card, an absent thumbnail
  width is 320 and an absent height is 180. So the page body renders for every list.
\<close>

theorem page_rendering_total:
  "(\<exists>cards. render_videos videos = Inr cards \<and> length cards = length videos \<and>
      (\<forall>i < length videos. render_video (videos ! i) = Inr (cards ! i))) \<and>
   (\<exists>sections. render videos fetchError = Inr sections) \<and>
   (Option.bind (item_id video) id_videoId = None \<or>
    Option.bind (snippet video) snippet_title = None \<or>
    Option.bind (Option.bind (Option.bind (snippet video) thumbnails) medium) url = None \<longrightarrow>
      render_video video = Inr None) \<and>
   (\<forall>c. render_video video = Inr (Some c) \<longrightarrow>
      (\<exists>img. card_image c = Some img \<and>
         (Option.bind (Option.bind (Option.bind (snippet video) thumbnails) medium) width = None \<longrightarrow>
            image_width img = 320) \<and>
         (Option.bind (Option.bind (Option.bind (snippet video) thumbnails) medium) height = None \<longrightarrow>
            image_height img = 180)))"
proof (intro conjI allI impI)
  show "\<exists>cards. render_videos videos = Inr cards \<and> length cards = length videos \<and>
      (\<forall>i < length videos. render_video (videos ! i) = Inr (cards ! i))"
    by (rule render_videos_total)
next
  show "\<exists>sections. render videos fetchError = Inr sections"
    using render_sections [of videos fetchError] by blast
next
  assume "Option.bind (item_id video) id_videoId = None \<or>
    Option.bind (snippet video) snippet_title = None \<or>
    Option.bind (Option.bind (Option.bind (snippet video) thumbnails) medium) url = None"
  then show "render_video video = Inr None"
    by (rule render_video_skips)
next
  fix c
  assume "render_video video = Inr (Some c)"
  from render_video_card [OF this]
  show "\<exists>img. card_image c = Some img \<and>
      (Option.bind (Option.bind (Option.bind (snippet video) thumbnails) medium) width = None \<longrightarrow>
         image_width img = 320) \<and>
      (Option.bind (Option.bind (Option.bind (snippet video) thumbnails) medium) height = None \<longrightarrow>
         image_height img = 180)"
    by (auto simp: or_else_number_def)
qed

text \<open>
  Witness for C9: a full item without thumbnail dimensions, followed by an item without
  snippet. The first yields a card whose image is 320 by 180, the second yields nothing.
\<close>

theorem page_rendering_total_witness:
  "Option.bind (snippet untitled_item) snippet_title = None \<and>
   render_video untitled_item = Inr None \<and>
   Option.bind (Option.bind (Option.bind (snippet example_item) thumbnails) medium) width = None \<and>
   Option.bind (Option.bind (Option.bind (snippet example_item) thumbnails) medium) height = None \<and>
   (\<exists>c img. render_video example_item = Inr (Some c) \<and> card_image c = Some img \<and>
      image_width img = 320 \<and> image_height img = 180) \<and>
   (\<exists>c. render_videos [example_item, untitled_item] = Inr [Some c, None])"
proof -
  have untitled: "Option.bind (snippet untitled_item) snippet_title = None"
    by (simp add: untitled_item_def)
  have dims:
    "Option.bind (Option.bind (Option.bind (snippet example_item) thumbnails) medium) width = None"
    "Option.bind (Option.bind (Option.bind (snippet example_item) thumbnails) medium) height = None"
    by (simp_all add: example_item_def)
  have "truthy (Option.bind (item_id example_item) id_videoId)"
    "truthy (Option.bind (snippet example_item) snippet_title)"
    "truthy (Option.bind (Option.bind (Option.bind (snippet example_item) thumbnails) medium) url)"
    "snippet example_item = Some (the (snippet example_item))"
    by (simp_all add: example_item_def js_def)
  from render_video_shown [OF this]
  obtain c where c: "render_video example_item = Inr (Some c)"
    by blast
  have skipped: "render_video untitled_item = Inr None"
    using page_rendering_total [of "[]" None untitled_item] untitled by simp
  obtain img where "card_image c = Some img" "image_width img = 320" "image_height img = 180"
    using page_rendering_total [of "[]" None example_item] c dims by auto
  with untitled dims c skipped show ?thesis
    by simp
qed

text \<open>
  C10. Every render of the page shows exactly one of the three body sections. The
  section is the error paragraph when the recorded \<open>fetchError\<close> is truthy, the
  \<open>No videos found.\<close> message when it is falsy and the list is empty, and the video
  grid when it is falsy and the list is non-empty: three conditions of which exactly one
  holds. Whenever a fetch error is recorded, the list is empty.
\<close>

theorem page_one_section:
  "(\<exists>shown. Home env_appUrl fetch = Inr [shown] \<and>
      (case shown of
         VideoGrid cards \<Rightarrow>
           \<not> truthy (snd (load env_appUrl fetch)) \<and> length (fst (load env_appUrl fetch)) > 0
       | NoVideosFound \<Rightarrow>
           \<not> truthy (snd (load env_appUrl fetch)) \<and> length (fst (load env_appUrl fetch)) = 0
       | ErrorParagraph message \<Rightarrow>
           truthy (snd (load env_appUrl fetch)) \<and> snd (load env_appUrl fetch) = Some message)) \<and>
   (snd (load env_appUrl fetch) \<noteq> None \<longrightarrow> fst (load env_appUrl fetch) = [])"
proof -
  obtain videos fetchError where st: "load env_appUrl fetch = (videos, fetchError)"
    by (cases "load env_appUrl fetch")
  obtain cards where "render videos fetchError =
      Inr (case fetchError of
             None \<Rightarrow> if videos = [] then [NoVideosFound] else [VideoGrid cards]
           | Some message \<Rightarrow>
               if message \<noteq> [] then [ErrorParagraph message]
               else if videos = [] then [NoVideosFound] else [VideoGrid cards])"
    using render_sections [of videos fetchError] by blast
  moreover have "fetchError \<noteq> None \<longrightarrow> videos = []"
    using st load_error_empties [of env_appUrl fetch videos] by (cases fetchError) auto
  ultimately show ?thesis
    by (cases fetchError) (auto simp: Home_load [OF st] st)
qed

text \<open>
  Witness for C10: a fetch that is rejected with the message \<open>fetch failed\<close> records
  the error, leaves the list empty, and shows the error paragraph alone.
\<close>

theorem page_one_section_witness:
  "snd (load None (example_fetch (Rejected (ErrorInstance (js ''fetch failed''))))) \<noteq> None \<and>
   fst (load None (example_fetch (Rejected (ErrorInstance (js ''fetch failed''))))) = [] \<and>
   Home None (example_fetch (Rejected (ErrorInstance (js ''fetch failed'')))) =
     Inr [ErrorParagraph (js ''fetch failed'')]"
proof -
  have st: "load None (example_fetch (Rejected (ErrorInstance (js ''fetch failed'')))) =
      ([], Some (js ''fetch failed''))"
    by (simp add: load_def fetch_videos_def example_fetch_def)
  have msg: "js ''fetch failed'' \<noteq> []"
    by (simp add: js_def)
  let ?fetch = "example_fetch (Rejected (ErrorInstance (js ''fetch failed'')))"
  from page_one_section [of None ?fetch]
  obtain shown where home: "Home None ?fetch = Inr [shown]"
    and which: "case shown of
        VideoGrid cards \<Rightarrow>
          \<not> truthy (snd (load None ?fetch)) \<and> length (fst (load None ?fetch)) > 0
      | NoVideosFound \<Rightarrow>
          \<not> truthy (snd (load None ?fetch)) \<and> length (fst (load None ?fetch)) = 0
      | ErrorParagraph message \<Rightarrow>
          truthy (snd (load None ?fetch)) \<and> snd (load None ?fetch) = Some message"
    by blast
  from which st msg have "shown = ErrorParagraph (js ''fetch failed'')"
    by (cases shown) simp_all
  with home st show ?thesis
    by simp
qed

section \<open>Further properties\<close>

text \<open>
  Where the side conditions of C1 and C6 matter. A message that holds the code units of
  line 155 and none of the other search strings is answered with 403. A fetch rejected
  with an \<open>Error\<close> whose message is the empty string records \<open>fetchError = ''\<close>,
  which is falsy, and the page shows \<open>No videos found.\<close>
\<close>

lemma catch_block_mis_encoded_phrase:
  "status (fst (GET (example_externals (Inl (StringMessage bot_check_message)))
     (Some example_videoId))) = 403 \<and>
   \<not> str_includes (ascii_toLowerCase bot_check_message) (js ''unavailable'') \<and>
   \<not> str_includes (ascii_toLowerCase bot_check_message) (js ''private'') \<and>
   \<not> str_includes (ascii_toLowerCase bot_check_message) (js ''video not found'') \<and>
   \<not> str_includes (ascii_toLowerCase bot_check_message) (js ''extract function'') \<and>
   \<not> str_includes (ascii_toLowerCase bot_check_message) (js ''cipher'') \<and>
   \<not> str_includes (ascii_toLowerCase bot_check_message) (js ''signature'') \<and>
   \<not> str_includes (ascii_toLowerCase bot_check_message)
       (js ''no formats found matching quality'') \<and>
   \<not> str_includes (ascii_toLowerCase bot_check_message) (js ''no such format found'') \<and>
   \<not> str_includes (ascii_toLowerCase bot_check_message) (js ''sign in to confirm'')"
proof -
  let ?ext = "example_externals (Inl (StringMessage bot_check_message))"
  have "GET ?ext (Some example_videoId) =
      (catch_block ?ext example_videoId (StringMessage bot_check_message),
       [GetInfoCall (js ''https://www.youtube.com/watch?v='' @ example_videoId)])"
    by (rule GET_setup_error) (simp_all add: example_externals_simps example_videoId_facts(1,2))
  moreover have
    "status (catch_block ?ext example_videoId (StringMessage bot_check_message)) = 403"
    by (simp add: catch_block_def example_externals_simps bot_check_includes)
  ultimately show ?thesis
    by (simp add: bot_check_includes)
qed

lemma page_empty_error_message:
  "load None (example_fetch (Rejected (ErrorInstance []))) = ([], Some []) \<and>
   Home None (example_fetch (Rejected (ErrorInstance []))) = Inr [NoVideosFound]"
  by (simp add: Home_def load_def fetch_videos_def example_fetch_def render_def)

text \<open>
  The base of the file name has at most 100 code units, and each of them is a word
  character, a hyphen or a dot, whatever the title: no white space, quote or non-ASCII
  code unit reaches the \<open>Content-Disposition\<close> header.
\<close>

theorem download_filename_safe:
  "length (sanitizedFilenameBase info_title) \<le> 100 \<and>
   (\<forall>c \<in> set (sanitizedFilenameBase info_title). is_word c \<or> c = hyphen \<or> c = dot) \<and>
   filename info_title = sanitizedFilenameBase info_title @ js ''_trimmed_30s.mp4''"
proof (intro conjI ballI)
  show "length (sanitizedFilenameBase info_title) \<le> 100"
    by (simp add: sanitizedFilenameBase_def substring_0 Let_def)
next
  fix c
  assume "c \<in> set (sanitizedFilenameBase info_title)"
  then show "is_word c \<or> c = hyphen \<or> c = dot"
    by (rule sanitizedFilenameBase_safe)
next
  show "filename info_title = sanitizedFilenameBase info_title @ js ''_trimmed_30s.mp4''"
    by (simp add: filename_def)
qed

text \<open>
  At the title \<open>Money: talk & walk\<close>: the base is \<open>Money__talk___walk\<close>, and its
  first code unit \<open>M\<close> is a word character.
\<close>

theorem download_filename_safe_witness:
  "sanitizedFilenameBase (Some (js ''Money: talk & walk'')) = js ''Money__talk___walk'' \<and>
   0x4D \<in> set (sanitizedFilenameBase (Some (js ''Money: talk & walk''))) \<and>
   (is_word 0x4D \<or> 0x4D = hyphen \<or> 0x4D = dot) \<and>
   length (sanitizedFilenameBase (Some (js ''Money: talk & walk''))) \<le> 100"
proof -
  have base: "sanitizedFilenameBase (Some (js ''Money: talk & walk'')) = js ''Money__talk___walk''"
    by (simp add: sanitizedFilenameBase_def substring_0 or_else_def replace_unsafe_def js_def
        is_word_def is_space_def hyphen_def dot_def underscore_def)
  have first: "0x4D \<in> set (sanitizedFilenameBase (Some (js ''Money: talk & walk'')))"
    unfolding base by (simp add: js_def)
  from download_filename_safe [of "Some (js ''Money: talk & walk'')"] first
  have "is_word 0x4D \<or> 0x4D = hyphen \<or> 0x4D = dot"
    and "length (sanitizedFilenameBase (Some (js ''Money: talk & walk''))) \<le> 100"
    by blast+
  with base first show ?thesis
    by blast
qed

text \<open>
  What replacing the runs of white space does: a stretch without white space is kept as
  it is, and a non-empty stretch of white space that ends the string or is followed by
  another code unit becomes a single \<open>_\<close>.
\<close>

theorem replace_spaces_runs:
  "((\<forall>c \<in> set kept. \<not> is_space c) \<longrightarrow>
      replace_spaces (kept @ rest) = kept @ replace_spaces rest) \<and>
   (run \<noteq> [] \<and> (\<forall>c \<in> set run. is_space c) \<and> (rest = [] \<or> \<not> is_space (hd rest)) \<longrightarrow>
      replace_spaces (run @ rest) = underscore # replace_spaces rest)"
  using replace_spaces_word [of kept rest] replace_spaces_run [of run rest]
  by blast

text \<open>At \<open>a\<close>, then a space and a tab, then \<open>b\<close>: the result is \<open>a_b\<close>.\<close>

theorem replace_spaces_runs_witness:
  "(\<forall>c \<in> set (js ''a''). \<not> is_space c) \<and>
   [0x20, 0x09] \<noteq> [] \<and> (\<forall>c \<in> set [0x20, 0x09]. is_space c) \<and>
   \<not> is_space (hd (js ''b'')) \<and>
   replace_spaces (js ''a'' @ [0x20, 0x09] @ js ''b'') = js ''a_b''"
proof -
  have a: "\<forall>c \<in> set (js ''a''). \<not> is_space c"
    and b: "\<forall>c \<in> set (js ''b''). \<not> is_space c"
    and hd_b: "\<not> is_space (hd (js ''b''))"
    and run: "\<forall>c \<in> set [0x20, 0x09]. is_space c"
    by (simp_all add: js_def is_space_def)
  have "replace_spaces (js ''a'' @ [0x20, 0x09] @ js ''b'') =
      js ''a'' @ replace_spaces ([0x20, 0x09] @ js ''b'')"
    using replace_spaces_runs [of "js ''a''" "[0x20, 0x09] @ js ''b''" "[]"] a by blast
  also have "replace_spaces ([0x20, 0x09] @ js ''b'') = underscore # replace_spaces (js ''b'')"
    using replace_spaces_runs [of "[]" "js ''b''" "[0x20, 0x09]"] run hd_b by blast
  also have "replace_spaces (js ''b'') = js ''b''"
    using replace_spaces_runs [of "js ''b''" "[]" "[]"] b by simp
  finally have "replace_spaces (js ''a'' @ [0x20, 0x09] @ js ''b'') = js ''a_b''"
    by (simp add: js_def underscore_def)
  with a run hd_b show ?thesis
    by blast
qed

end
